theory Spec2Isabelle
  imports Complex_Main
begin

section \<open>The chain-of-thought demo of \<^verbatim>\<open>agent.py\<close>\<close>

text \<open>
  The program sends a question through three prompts to a hosted chat-completion
  service: analyse, reason, verify. This theory embeds the three classes and the
  orchestration function \<^verbatim>\<open>cot_process\<close> and proves the properties the specification
  states about them.

  Conventions of the embedding.
  \<^item> A Python \<^verbatim>\<open>str\<close> is a \<^typ>\<open>string\<close> holding its UTF-8 encoding. The program only
    compares, stores and concatenates strings, and UTF-8 encoding commutes with
    concatenation, so nothing is lost.
  \<^item> \<^verbatim>\<open>top_p\<close> and \<^verbatim>\<open>temperature\<close> are numbers the program never computes with; they are
    values of type \<^typ>\<open>real\<close>. \<^verbatim>\<open>max_tokens\<close> is an \<^typ>\<open>int\<close>.
  \<^item> Objects live in a store and are named by references (natural numbers): the one
    \<^verbatim>\<open>CoTEnvironment\<close> of an invocation is shared by its three agents.
  \<^item> The hosted service and the SDK's transport are outside the repository. They are a
    parameter: a function from the client and the request to an outcome, with a state of
    its own.
\<close>

subsection \<open>Exceptions\<close>

text \<open>
  An \<open>exn\<close> is an instance of Python's class \<^verbatim>\<open>Exception\<close>, which is what the handler
  \<^verbatim>\<open>except Exception as e\<close> of \<^verbatim>\<open>ask_model\<close> catches: the name of its class and the text
  \<^verbatim>\<open>str(e)\<close> gives. Interrupts of the interpreter (\<^verbatim>\<open>KeyboardInterrupt\<close>, \<^verbatim>\<open>SystemExit\<close>)
  are not instances of that class and are not part of the model.
\<close>

datatype exn = PyException (exn_class: string) (exn_str: string)

definition IndexError :: "string \<Rightarrow> exn" where
  "IndexError msg = PyException ''IndexError'' msg"

definition AttributeError :: "string \<Rightarrow> exn" where
  "AttributeError msg = PyException ''AttributeError'' msg"

subsection \<open>The SDK: client, request and response\<close>

text \<open>The client \<^verbatim>\<open>ZhipuAI(api_key=api_key)\<close> holds the key it was built with.\<close>

record ZhipuAI =
  api_key :: string

text \<open>
  The keyword arguments of \<^verbatim>\<open>client.chat.completions.create\<close>. A message is the dict
  literal of the source, as the list of its items in order.
\<close>

record request =
  model :: string
  messages :: "(string \<times> string) list list"
  top_p :: real
  temperature :: real
  max_tokens :: int
  stream :: bool

text \<open>
  Modelled from the spec: the response type of the SDK, which is not part of the
  repository. The service is expected to answer with ``a response containing at least one
  choice whose message content is a string''; the source reads
  \<^verbatim>\<open>response.choices[0].message.content\<close>. A response is a list of choices, possibly
  empty; the message of a choice is an object with a string \<^verbatim>\<open>content\<close>, or \<^verbatim>\<open>None\<close>.
\<close>

record completion_message =
  content :: string

record choice =
  message :: "completion_message option"

record completion =
  choices :: "choice list"

text \<open>
  The service, seen from the program: given the client and the request, it raises or
  returns a response, and moves to a new state of its own (quota, load, sampling).
\<close>

type_synonym 'w service = "ZhipuAI \<Rightarrow> request \<Rightarrow> 'w \<Rightarrow> (exn + completion) \<times> 'w"

subsection \<open>The classes\<close>

record CoTEnvironment =
  client :: ZhipuAI
  model :: string
  top_p :: real
  temperature :: real
  max_tokens :: int

record CoTAgent =
  name :: string
  system_message :: string
  environment :: nat

text \<open>
  The state of the program: the store of \<^verbatim>\<open>CoTEnvironment\<close> objects and of agents, each
  with the number of objects allocated so far (the next fresh reference); the requests
  handed to the SDK so far, each with the client that sent it; and the state of what lies
  outside the program.
\<close>

record 'w state =
  environments :: "nat \<Rightarrow> CoTEnvironment"
  environment_count :: nat
  agents :: "nat \<Rightarrow> CoTAgent"
  agent_count :: nat
  requests :: "(ZhipuAI \<times> request) list"
  external :: 'w

text \<open>
  \<^verbatim>\<open>CoTEnvironment.__init__\<close>. A parameter that has the name of a field is written with
  a prime. The defaults of the signature are not modelled: \<^verbatim>\<open>cot_process\<close>, the only
  caller, passes every argument.
\<close>

definition CoTEnvironment_init ::
  "string \<Rightarrow> string \<Rightarrow> real \<Rightarrow> real \<Rightarrow> int \<Rightarrow> 'w state \<Rightarrow> nat \<times> 'w state" where
  "CoTEnvironment_init api_key' model' top_p' temperature' max_tokens' st =
     (let self = environment_count st
      in (self,
          st\<lparr>environments := (environments st)
                (self := \<lparr>client = \<lparr>api_key = api_key'\<rparr>,
                          CoTEnvironment.model = model',
                          CoTEnvironment.top_p = top_p',
                          CoTEnvironment.temperature = temperature',
                          CoTEnvironment.max_tokens = max_tokens'\<rparr>),
             environment_count := Suc self\<rparr>))"

text \<open>
  \<^verbatim>\<open>self.client.chat.completions.create(...)\<close>: the request is handed to the SDK, and the
  service answers or raises.
\<close>

definition create ::
  "'w service \<Rightarrow> ZhipuAI \<Rightarrow> request \<Rightarrow> 'w state \<Rightarrow> (exn + completion) \<times> 'w state" where
  "create svc c rq st =
     (case svc c rq (external st) of
        (outcome, w) \<Rightarrow> (outcome, st\<lparr>requests := requests st @ [(c, rq)], external := w\<rparr>))"

text \<open>The keyword arguments \<^verbatim>\<open>ask_model\<close> builds (lines 22 to 30).\<close>

definition create_kwargs :: "CoTEnvironment \<Rightarrow> string \<Rightarrow> string \<Rightarrow> request" where
  "create_kwargs self system_prompt user_prompt =
     \<lparr>request.model = CoTEnvironment.model self,
      messages = [[(''role'', ''system''), (''content'', system_prompt)],
                  [(''role'', ''user''), (''content'', user_prompt)]],
      request.top_p = CoTEnvironment.top_p self,
      request.temperature = CoTEnvironment.temperature self,
      request.max_tokens = CoTEnvironment.max_tokens self,
      stream = False\<rparr>"

text \<open>
  \<^verbatim>\<open>response.choices[0].message.content\<close> (line 32): indexing an empty list raises
  \<^verbatim>\<open>IndexError\<close>, reading \<^verbatim>\<open>content\<close> from \<^verbatim>\<open>None\<close> raises \<^verbatim>\<open>AttributeError\<close>. The text of
  the latter has quotation marks (\<open>CHR 0x27\<close>) around the type and the attribute.
\<close>

definition first_content :: "completion \<Rightarrow> exn + string" where
  "first_content response =
     (case choices response of
        [] \<Rightarrow> Inl (IndexError ''list index out of range'')
      | c # _ \<Rightarrow>
          (case message c of
             None \<Rightarrow>
               Inl (AttributeError
                 (CHR 0x27 # ''NoneType'' @ CHR 0x27 # '' object has no attribute ''
                    @ CHR 0x27 # ''content'' @ [CHR 0x27]))
           | Some m \<Rightarrow> Inr (content m)))"

text \<open>The body of the \<^verbatim>\<open>try\<close> block of \<^verbatim>\<open>ask_model\<close>: it raises or yields the reply.\<close>

definition ask_model_try ::
  "'w service \<Rightarrow> nat \<Rightarrow> string \<Rightarrow> string \<Rightarrow> 'w state \<Rightarrow> (exn + string) \<times> 'w state" where
  "ask_model_try svc self system_prompt user_prompt st =
     (let env = environments st self
      in case create svc (client env) (create_kwargs env system_prompt user_prompt) st of
           (Inl e, st') \<Rightarrow> (Inl e, st')
         | (Inr response, st') \<Rightarrow> (first_content response, st'))"

text \<open>\<^verbatim>\<open>CoTEnvironment.ask_model\<close>: the \<^verbatim>\<open>try\<close> block under its handler.\<close>

definition ask_model ::
  "'w service \<Rightarrow> nat \<Rightarrow> string \<Rightarrow> string \<Rightarrow> 'w state \<Rightarrow> string \<times> 'w state" where
  "ask_model svc self system_prompt user_prompt st =
     (case ask_model_try svc self system_prompt user_prompt st of
        (Inr text, st') \<Rightarrow> (text, st')
      | (Inl e, st') \<Rightarrow> (''Error: '' @ exn_str e, st'))"

text \<open>\<^verbatim>\<open>CoTAgent.__init__\<close> allocates the agent.\<close>

definition CoTAgent_init :: "string \<Rightarrow> string \<Rightarrow> nat \<Rightarrow> 'w state \<Rightarrow> nat \<times> 'w state" where
  "CoTAgent_init name' system_message' environment' st =
     (let self = agent_count st
      in (self,
          st\<lparr>agents := (agents st)
                (self := \<lparr>name = name', system_message = system_message',
                          environment = environment'\<rparr>),
             agent_count := Suc self\<rparr>))"

text \<open>
  \<^verbatim>\<open>CoTAgent.think\<close>. The method \<^verbatim>\<open>ask_model\<close> is looked up on the environment object when
  the call is made; \<open>gateway\<close> is that method: \<^term>\<open>ask_model svc\<close> in the program, a test
  double where a test replaces it.
\<close>

type_synonym 'w gateway = "nat \<Rightarrow> string \<Rightarrow> string \<Rightarrow> 'w state \<Rightarrow> string \<times> 'w state"

definition think :: "'w gateway \<Rightarrow> nat \<Rightarrow> string \<Rightarrow> 'w state \<Rightarrow> string \<times> 'w state" where
  "think gateway self user_prompt st =
     (let a = agents st self
      in gateway (environment a) (system_message a) user_prompt st)"

subsection \<open>The three roles\<close>

text \<open>
  The instruction texts are the string literals of the three subclasses, in UTF-8, three
  characters of the source on each line.
\<close>

definition analyzer_message :: string where
  "analyzer_message =
    [
     CHR 0xE4, CHR 0xBD, CHR 0xA0, CHR 0xE6, CHR 0x98, CHR 0xAF, CHR 0xE7, CHR 0x90, CHR 0x86,
     CHR 0xE8, CHR 0xA7, CHR 0xA3, CHR 0xE5, CHR 0xA4, CHR 0x8D, CHR 0xE6, CHR 0x9D, CHR 0x82,
     CHR 0xE9, CHR 0x97, CHR 0xAE, CHR 0xE9, CHR 0xA2, CHR 0x98, CHR 0xE7, CHR 0x9A, CHR 0x84,
     CHR 0xE4, CHR 0xB8, CHR 0x93, CHR 0xE5, CHR 0xAE, CHR 0xB6, CHR 0xE3, CHR 0x80, CHR 0x82,
     CHR 0xE4, CHR 0xBD, CHR 0xA0, CHR 0xE7, CHR 0x9A, CHR 0x84, CHR 0xE8, CHR 0x81, CHR 0x8C,
     CHR 0xE8, CHR 0xB4, CHR 0xA3, CHR 0xE6, CHR 0x98, CHR 0xAF, CHR 0xE7, CHR 0xA1, CHR 0xAE,
     CHR 0xE5, CHR 0xAE, CHR 0x9A, CHR 0xE9, CHR 0x97, CHR 0xAE, CHR 0xE9, CHR 0xA2, CHR 0x98,
     CHR 0xE7, CHR 0x9A, CHR 0x84, CHR 0xE5, CHR 0x85, CHR 0xB3, CHR 0xE9, CHR 0x94, CHR 0xAE,
     CHR 0xE8, CHR 0xA6, CHR 0x81, CHR 0xE7, CHR 0xB4, CHR 0xA0, CHR 0xEF, CHR 0xBC, CHR 0x8C,
     CHR 0xE5, CHR 0xB9, CHR 0xB6, CHR 0xE5, CHR 0xB0, CHR 0x86, CHR 0xE5, CHR 0x85, CHR 0xB6,
     CHR 0xE5, CHR 0x88, CHR 0x86, CHR 0xE8, CHR 0xA7, CHR 0xA3, CHR 0xE4, CHR 0xB8, CHR 0xBA,
     CHR 0xE4, CHR 0xB8, CHR 0x80, CHR 0xE4, CHR 0xB8, CHR 0xAA, CHR 0xE7, CHR 0xBB, CHR 0x93,
     CHR 0xE6, CHR 0x9E, CHR 0x84, CHR 0xE5, CHR 0x8C, CHR 0x96, CHR 0xE7, CHR 0x9A, CHR 0x84,
     CHR 0xE3, CHR 0x80, CHR 0x81, CHR 0xE5, CHR 0xBE, CHR 0xAA, CHR 0xE5, CHR 0xBA, CHR 0x8F,
     CHR 0xE6, CHR 0xB8, CHR 0x90, CHR 0xE8, CHR 0xBF, CHR 0x9B, CHR 0xE7, CHR 0x9A, CHR 0x84,
     CHR 0xE8, CHR 0xAE, CHR 0xA1, CHR 0xE5, CHR 0x88, CHR 0x92, CHR 0xE3, CHR 0x80, CHR 0x82,
     CHR 0xE4, CHR 0xB8, CHR 0x93, CHR 0xE6, CHR 0xB3, CHR 0xA8, CHR 0xE4, CHR 0xBA, CHR 0x8E,
     CHR 0xE5, CHR 0x88, CHR 0x86, CHR 0xE6, CHR 0x9E, CHR 0x90, CHR 0xE7, CHR 0x9A, CHR 0x84,
     CHR 0xE6, CHR 0xB8, CHR 0x85, CHR 0xE6, CHR 0x99, CHR 0xB0, CHR 0xE5, CHR 0xBA, CHR 0xA6,
     CHR 0xE5, CHR 0x92, CHR 0x8C, CHR 0xE5, CHR 0xAE, CHR 0x8C, CHR 0xE6, CHR 0x95, CHR 0xB4,
     CHR 0xE6, CHR 0x80, CHR 0xA7, CHR 0xE3, CHR 0x80, CHR 0x82]"

definition reasoner_message :: string where
  "reasoner_message =
    [
     CHR 0xE4, CHR 0xBD, CHR 0xA0, CHR 0xE6, CHR 0x98, CHR 0xAF, CHR 0xE4, CHR 0xB8, CHR 0x80,
     CHR 0xE4, CHR 0xB8, CHR 0xAA, CHR 0xE4, CHR 0xB9, CHR 0x90, CHR 0xE4, CHR 0xBA, CHR 0x8E,
     CHR 0xE8, CHR 0xA7, CHR 0xA3, CHR 0xE7, CHR 0xAD, CHR 0x94, CHR 0xE5, CHR 0x90, CHR 0x84,
     CHR 0xE7, CHR 0xA7, CHR 0x8D, CHR 0xE9, CHR 0x97, CHR 0xAE, CHR 0xE9, CHR 0xA2, CHR 0x98,
     CHR 0xE7, CHR 0x9A, CHR 0x84, CHR 0xE5, CHR 0x8A, CHR 0xA9, CHR 0xE6, CHR 0x89, CHR 0x8B,
     CHR 0xEF, CHR 0xBC, CHR 0x8C, CHR 0xE4, CHR 0xBD, CHR 0xA0, CHR 0xE7, CHR 0x9A, CHR 0x84,
     CHR 0xE4, CHR 0xBB, CHR 0xBB, CHR 0xE5, CHR 0x8A, CHR 0xA1, CHR 0xE6, CHR 0x98, CHR 0xAF,
     CHR 0xE4, CHR 0xB8, CHR 0xBA, CHR 0xE9, CHR 0x92, CHR 0x88, CHR 0xE5, CHR 0xAF, CHR 0xB9,
     CHR 0xE4, CHR 0xB8, CHR 0x8A, CHR 0xE8, CHR 0xBF, CHR 0xB0, CHR 0xE6, CHR 0xAD, CHR 0xA5,
     CHR 0xE9, CHR 0xAA, CHR 0xA4, CHR 0xE7, CHR 0xBB, CHR 0x99, CHR 0xE5, CHR 0x87, CHR 0xBA,
     CHR 0xE5, CHR 0x9B, CHR 0x9E, CHR 0xE7, CHR 0xAD, CHR 0x94, CHR 0xE3, CHR 0x80, CHR 0x82]"

definition verifier_message :: string where
  "verifier_message =
    [
     CHR 0xE4, CHR 0xBD, CHR 0xA0, CHR 0xE6, CHR 0x98, CHR 0xAF, CHR 0xE4, CHR 0xB8, CHR 0x80,
     CHR 0xE4, CHR 0xB8, CHR 0xAA, CHR 0xE4, CHR 0xB9, CHR 0x90, CHR 0xE4, CHR 0xBA, CHR 0x8E,
     CHR 0xE8, CHR 0xA7, CHR 0xA3, CHR 0xE7, CHR 0xAD, CHR 0x94, CHR 0xE5, CHR 0x90, CHR 0x84,
     CHR 0xE7, CHR 0xA7, CHR 0x8D, CHR 0xE9, CHR 0x97, CHR 0xAE, CHR 0xE9, CHR 0xA2, CHR 0x98,
     CHR 0xE7, CHR 0x9A, CHR 0x84, CHR 0xE5, CHR 0x8A, CHR 0xA9, CHR 0xE6, CHR 0x89, CHR 0x8B,
     CHR 0xEF, CHR 0xBC, CHR 0x8C, CHR 0xE9, CHR 0xAA, CHR 0x8C, CHR 0xE8, CHR 0xAF, CHR 0x81,
     CHR 0xE6, CHR 0x8E, CHR 0xA8, CHR 0xE7, CHR 0x90, CHR 0x86, CHR 0xE8, CHR 0xBF, CHR 0x87,
     CHR 0xE7, CHR 0xA8, CHR 0x8B, CHR 0xE7, CHR 0x9A, CHR 0x84, CHR 0xE9, CHR 0x80, CHR 0xBB,
     CHR 0xE8, CHR 0xBE, CHR 0x91, CHR 0xE4, CHR 0xB8, CHR 0x80, CHR 0xE8, CHR 0x87, CHR 0xB4,
     CHR 0xE6, CHR 0x80, CHR 0xA7, CHR 0xE5, CHR 0x92, CHR 0x8C, CHR 0xE7, CHR 0xBB, CHR 0x93,
     CHR 0xE6, CHR 0x9E, CHR 0x9C, CHR 0xE7, CHR 0x9A, CHR 0x84, CHR 0xE5, CHR 0x8F, CHR 0xAF,
     CHR 0xE9, CHR 0x9D, CHR 0xA0, CHR 0xE6, CHR 0x80, CHR 0xA7, CHR 0xE3, CHR 0x80, CHR 0x82,
     CHR 0xE6, CHR 0xA3, CHR 0x80, CHR 0xE6, CHR 0x9F, CHR 0xA5, CHR 0xE6, CHR 0xAF, CHR 0x8F,
     CHR 0xE4, CHR 0xB8, CHR 0xAA, CHR 0xE7, CHR 0xBB, CHR 0x93, CHR 0xE8, CHR 0xAE, CHR 0xBA,
     CHR 0xE7, CHR 0x9A, CHR 0x84, CHR 0xE6, CHR 0xAD, CHR 0xA3, CHR 0xE7, CHR 0xA1, CHR 0xAE,
     CHR 0xE6, CHR 0x80, CHR 0xA7, CHR 0xEF, CHR 0xBC, CHR 0x8C, CHR 0xE5, CHR 0xB9, CHR 0xB6,
     CHR 0xE6, CHR 0x89, CHR 0xBE, CHR 0xE5, CHR 0x87, CHR 0xBA, CHR 0xE4, CHR 0xBB, CHR 0xBB,
     CHR 0xE4, CHR 0xBD, CHR 0x95, CHR 0xE6, CHR 0xBD, CHR 0x9C, CHR 0xE5, CHR 0x9C, CHR 0xA8,
     CHR 0xE7, CHR 0x9A, CHR 0x84, CHR 0xE9, CHR 0x94, CHR 0x99, CHR 0xE8, CHR 0xAF, CHR 0xAF,
     CHR 0xE6, CHR 0x88, CHR 0x96, CHR 0xE5, CHR 0xB7, CHR 0xAE, CHR 0xE8, CHR 0xB7, CHR 0x9D,
     CHR 0xE3, CHR 0x80, CHR 0x82]"

definition ProblemAnalyzer :: "nat \<Rightarrow> 'w state \<Rightarrow> nat \<times> 'w state" where
  "ProblemAnalyzer environment' st =
     CoTAgent_init ''Problem Analyzer'' analyzer_message environment' st"

definition StepReasoner :: "nat \<Rightarrow> 'w state \<Rightarrow> nat \<times> 'w state" where
  "StepReasoner environment' st =
     CoTAgent_init ''Step-by-Step Reasoner'' reasoner_message environment' st"

definition Verifier :: "nat \<Rightarrow> 'w state \<Rightarrow> nat \<times> 'w state" where
  "Verifier environment' st =
     CoTAgent_init ''Logical Verifier'' verifier_message environment' st"

subsection \<open>The orchestration\<close>

definition cot_process ::
  "'w gateway \<Rightarrow> string \<Rightarrow> string \<Rightarrow> real \<Rightarrow> real \<Rightarrow> int \<Rightarrow> string \<Rightarrow> 'w state
     \<Rightarrow> (string \<times> string \<times> string) \<times> 'w state" where
  "cot_process gateway api_key' model' top_p' temperature' max_tokens' question st0 =
     (case CoTEnvironment_init api_key' model' top_p' temperature' max_tokens' st0 of
        (cot_environment, st1) \<Rightarrow>
     (case ProblemAnalyzer cot_environment st1 of (analyzer, st2) \<Rightarrow>
     (case StepReasoner cot_environment st2 of (reasoner, st3) \<Rightarrow>
     (case Verifier cot_environment st3 of (verifier, st4) \<Rightarrow>
     (case think gateway analyzer question st4 of (steps, st5) \<Rightarrow>
     (case think gateway reasoner steps st5 of (reasoning, st6) \<Rightarrow>
     (case think gateway verifier reasoning st6 of (verification, st7) \<Rightarrow>
        ((steps, reasoning, verification), st7))))))))"

subsection \<open>Notions used to state the properties\<close>

text \<open>
  A test double for the gateway method: its \<open>i\<close>-th call (from 0) returns \<open>replies i\<close>,
  and it records the instruction and the user text of every call it receives. Its state
  is the list of the calls made so far.
\<close>

definition mock_gateway :: "(nat \<Rightarrow> string) \<Rightarrow> (string \<times> string) list gateway" where
  "mock_gateway replies self system_prompt user_prompt st =
     (replies (length (external st)),
      st\<lparr>external := external st @ [(system_prompt, user_prompt)]\<rparr>)"

text \<open>
  A sequence of \<^verbatim>\<open>ask_model\<close> calls on one \<^verbatim>\<open>CoTEnvironment\<close>, each with its instruction and
  its user text; the replies are collected in order.
\<close>

fun ask_models ::
  "'w service \<Rightarrow> nat \<Rightarrow> (string \<times> string) list \<Rightarrow> 'w state \<Rightarrow> string list \<times> 'w state" where
  "ask_models svc self [] st = ([], st)"
| "ask_models svc self ((system_prompt, user_prompt) # calls) st =
     (case ask_model svc self system_prompt user_prompt st of
        (reply, st') \<Rightarrow>
          (case ask_models svc self calls st' of
             (replies, st'') \<Rightarrow> (reply # replies, st'')))"

text \<open>The requests handed to the SDK between two states of the program.\<close>

definition sent_between :: "'w state \<Rightarrow> 'w state \<Rightarrow> (ZhipuAI \<times> request) list" where
  "sent_between st st' = drop (length (requests st)) (requests st')"

text \<open>
  The state at the start of the process: nothing is allocated and nothing was sent. The
  cells of the store that no reference names yet hold a placeholder.
\<close>

definition process_start :: "'w \<Rightarrow> 'w state" where
  "process_start w =
     \<lparr>environments = (\<lambda>_. \<lparr>client = \<lparr>api_key = ''''\<rparr>, CoTEnvironment.model = '''',
                              CoTEnvironment.top_p = 0, CoTEnvironment.temperature = 0,
                              CoTEnvironment.max_tokens = 0\<rparr>),
      environment_count = 0,
      agents = (\<lambda>_. \<lparr>name = '''', system_message = '''', environment = 0\<rparr>),
      agent_count = 0,
      requests = [],
      external = w\<rparr>"

text \<open>
  Four services for the examples. The first answers every request with one choice
  whose content is the model name of the request, and counts the requests it served; the
  second is out of reach; the third answers with no choice at all; the fourth answers
  with one choice whose content reads like the error string of a time-out.
\<close>

definition naming_service :: "nat service" where
  "naming_service c rq w =
     (Inr \<lparr>choices = [\<lparr>message = Some \<lparr>content = request.model rq\<rparr>\<rparr>]\<rparr>, Suc w)"

definition failing_service :: "nat service" where
  "failing_service c rq w = (Inl (PyException ''APITimeoutError'' ''Request timed out.''), Suc w)"

definition empty_service :: "nat service" where
  "empty_service c rq w = (Inr \<lparr>choices = []\<rparr>, Suc w)"

definition error_text_service :: "nat service" where
  "error_text_service c rq w =
     (Inr \<lparr>choices = [\<lparr>message = Some \<lparr>content = ''Error: Request timed out.''\<rparr>\<rparr>]\<rparr>,
      Suc w)"

section \<open>Properties\<close>

subsection \<open>What one call of \<^verbatim>\<open>ask_model\<close> does to the state\<close>

lemma ask_model_store:
  "environments (snd (ask_model svc self sp up st)) = environments st"
  "environment_count (snd (ask_model svc self sp up st)) = environment_count st"
  "agents (snd (ask_model svc self sp up st)) = agents st"
  "agent_count (snd (ask_model svc self sp up st)) = agent_count st"
  by (simp_all add: ask_model_def ask_model_try_def create_def Let_def
        split: prod.splits sum.splits)

lemma ask_model_requests:
  "requests (snd (ask_model svc self sp up st)) =
     requests st @ [(client (environments st self), create_kwargs (environments st self) sp up)]"
  by (simp add: ask_model_def ask_model_try_def create_def Let_def
        split: prod.splits sum.splits)

lemma ask_model_external:
  "external (snd (ask_model svc self sp up st)) =
     snd (svc (client (environments st self)) (create_kwargs (environments st self) sp up)
            (external st))"
  by (simp add: ask_model_def ask_model_try_def create_def Let_def
        split: prod.splits sum.splits)

lemma ask_model_reply:
  "fst (ask_model svc self sp up st) =
     (case fst (svc (client (environments st self)) (create_kwargs (environments st self) sp up)
                 (external st)) of
        Inl e \<Rightarrow> ''Error: '' @ exn_str e
      | Inr response \<Rightarrow>
          (case first_content response of
             Inl e \<Rightarrow> ''Error: '' @ exn_str e
           | Inr text \<Rightarrow> text))"
  by (simp add: ask_model_def ask_model_try_def create_def Let_def
        split: prod.splits sum.splits)

lemma fst_create:
  "fst (create svc c rq st) = fst (svc c rq (external st))"
  by (simp add: create_def split: prod.splits)

subsection \<open>The orchestration, step by step\<close>

lemmas constructors =
  CoTEnvironment_init_def CoTAgent_init_def ProblemAnalyzer_def StepReasoner_def Verifier_def

text \<open>
  After the four constructor calls the store holds the new environment and the three
  agents; the three calls of \<^verbatim>\<open>think\<close> are three calls of \<^verbatim>\<open>ask_model\<close> on that one
  environment.
\<close>

lemma cot_process_ask_model:
  "cot_process (ask_model svc) k m p t n q st0 =
     (let e = environment_count st0;
          a = agent_count st0;
          st4 = st0
            \<lparr>environments := (environments st0)
               (e := \<lparr>client = \<lparr>api_key = k\<rparr>, CoTEnvironment.model = m,
                      CoTEnvironment.top_p = p, CoTEnvironment.temperature = t,
                      CoTEnvironment.max_tokens = n\<rparr>),
             environment_count := Suc e,
             agents := (agents st0)
               (a := \<lparr>name = ''Problem Analyzer'', system_message = analyzer_message,
                      environment = e\<rparr>,
                Suc a := \<lparr>name = ''Step-by-Step Reasoner'', system_message = reasoner_message,
                      environment = e\<rparr>,
                Suc (Suc a) := \<lparr>name = ''Logical Verifier'', system_message = verifier_message,
                      environment = e\<rparr>),
             agent_count := Suc (Suc (Suc a))\<rparr>;
          r1 = ask_model svc e analyzer_message q st4;
          r2 = ask_model svc e reasoner_message (fst r1) (snd r1);
          r3 = ask_model svc e verifier_message (fst r2) (snd r2)
      in ((fst r1, fst r2, fst r3), snd r3))"
  by (simp add: cot_process_def think_def constructors Let_def case_prod_beta ask_model_store)

text \<open>The three requests of one invocation, whatever the service does.\<close>

lemma cot_process_sent:
  "sent_between st (snd (cot_process (ask_model svc) k m p t n q st)) =
     (let env = \<lparr>client = \<lparr>api_key = k\<rparr>, CoTEnvironment.model = m,
                 CoTEnvironment.top_p = p, CoTEnvironment.temperature = t,
                 CoTEnvironment.max_tokens = n\<rparr>;
          r = fst (cot_process (ask_model svc) k m p t n q st)
      in [(\<lparr>api_key = k\<rparr>, create_kwargs env analyzer_message q),
          (\<lparr>api_key = k\<rparr>, create_kwargs env reasoner_message (fst r)),
          (\<lparr>api_key = k\<rparr>, create_kwargs env verifier_message (fst (snd r)))])"
  by (simp add: sent_between_def cot_process_ask_model Let_def ask_model_requests
        ask_model_store)

subsection \<open>The gateway\<close>

text \<open>
  Claim C1, as amended. For every instruction and user text, \<^verbatim>\<open>ask_model\<close> never raises:
  the outcome of the service call has one of four shapes, and each gives a result.
  When the call raises \<open>e\<close>, the result is \<^verbatim>\<open>"Error: "\<close> followed by \<^verbatim>\<open>str(e)\<close>. When the call
  returns a response whose first choice has a message, the result is the content of
  that message. When the response has no choice, or the message of its first choice is
  \<^verbatim>\<open>None\<close>, the extraction raises and the result is \<^verbatim>\<open>"Error: "\<close> followed by the text of the
  \<^verbatim>\<open>IndexError\<close> or of the \<^verbatim>\<open>AttributeError\<close>. The \<^verbatim>\<open>try\<close> block is left through the handler
  exactly when the call or the extraction raises. Nothing is said in the other direction
  about the value returned: a reply may itself read like an error string.
\<close>

theorem ask_model_content_or_error:
  "let outcome = fst (create svc (client (environments st self))
                        (create_kwargs (environments st self) system_prompt user_prompt) st);
       result = fst (ask_model svc self system_prompt user_prompt st)
   in (\<forall>e. outcome = Inl e \<longrightarrow> result = ''Error: '' @ exn_str e)
    \<and> (\<forall>response c cs m.
          outcome = Inr response \<and> choices response = c # cs \<and> message c = Some m
            \<longrightarrow> result = content m)
    \<and> (\<forall>response.
          outcome = Inr response \<and> choices response = []
            \<longrightarrow> result = ''Error: list index out of range'')
    \<and> (\<forall>response c cs.
          outcome = Inr response \<and> choices response = c # cs \<and> message c = None
            \<longrightarrow> result = ''Error: '' @ CHR 0x27 # ''NoneType'' @ CHR 0x27
                           # '' object has no attribute '' @ CHR 0x27 # ''content''
                           @ [CHR 0x27])
    \<and> (isl (fst (ask_model_try svc self system_prompt user_prompt st)) \<longleftrightarrow>
          (case outcome of
             Inl e \<Rightarrow> True
           | Inr response \<Rightarrow>
               (case choices response of [] \<Rightarrow> True | c # cs \<Rightarrow> message c = None)))"
proof -
  let ?outcome = "fst (svc (client (environments st self))
                         (create_kwargs (environments st self) system_prompt user_prompt)
                         (external st))"
  let ?result = "fst (ask_model svc self system_prompt user_prompt st)"
  have raised: "\<forall>e. ?outcome = Inl e \<longrightarrow> ?result = ''Error: '' @ exn_str e"
    by (simp add: ask_model_reply)
  have read: "\<forall>response c cs m.
      ?outcome = Inr response \<and> choices response = c # cs \<and> message c = Some m
        \<longrightarrow> ?result = content m"
    by (simp add: ask_model_reply first_content_def)
  have no_choice: "\<forall>response.
      ?outcome = Inr response \<and> choices response = []
        \<longrightarrow> ?result = ''Error: list index out of range''"
    by (simp add: ask_model_reply first_content_def IndexError_def)
  have no_message: "\<forall>response c cs.
      ?outcome = Inr response \<and> choices response = c # cs \<and> message c = None
        \<longrightarrow> ?result = ''Error: '' @ CHR 0x27 # ''NoneType'' @ CHR 0x27
                       # '' object has no attribute '' @ CHR 0x27 # ''content''
                       @ [CHR 0x27]"
    by (simp add: ask_model_reply first_content_def AttributeError_def)
  have handler: "isl (fst (ask_model_try svc self system_prompt user_prompt st)) \<longleftrightarrow>
      (case ?outcome of
         Inl e \<Rightarrow> True
       | Inr response \<Rightarrow>
           (case choices response of [] \<Rightarrow> True | c # cs \<Rightarrow> message c = None))"
    by (simp add: ask_model_try_def create_def Let_def first_content_def
          split: prod.splits sum.splits list.splits option.splits)
  from raised read no_choice no_message handler show ?thesis
    unfolding Let_def fst_create by (intro conjI)
qed

text \<open>
  On an environment built for the model \<^verbatim>\<open>glm-4\<close>, the naming service gives the content
  of its one choice, and the service out of reach gives the error string.
\<close>

theorem ask_model_content_or_error_witness:
  "fst (create naming_service
          (client (environments (snd (CoTEnvironment_init ''key'' ''glm-4'' 0.1 0.1 600
                                        (process_start (0::nat)))) 0))
          (create_kwargs (environments (snd (CoTEnvironment_init ''key'' ''glm-4'' 0.1 0.1 600
                                        (process_start (0::nat)))) 0) ''sys'' ''hello'')
          (snd (CoTEnvironment_init ''key'' ''glm-4'' 0.1 0.1 600 (process_start (0::nat)))))
     = Inr \<lparr>choices = [\<lparr>message = Some \<lparr>content = ''glm-4''\<rparr>\<rparr>]\<rparr>
   \<and> fst (ask_model naming_service 0 ''sys'' ''hello''
           (snd (CoTEnvironment_init ''key'' ''glm-4'' 0.1 0.1 600 (process_start (0::nat)))))
       = ''glm-4''
   \<and> fst (create failing_service
          (client (environments (snd (CoTEnvironment_init ''key'' ''glm-4'' 0.1 0.1 600
                                        (process_start (0::nat)))) 0))
          (create_kwargs (environments (snd (CoTEnvironment_init ''key'' ''glm-4'' 0.1 0.1 600
                                        (process_start (0::nat)))) 0) ''sys'' ''hello'')
          (snd (CoTEnvironment_init ''key'' ''glm-4'' 0.1 0.1 600 (process_start (0::nat)))))
     = Inl (PyException ''APITimeoutError'' ''Request timed out.'')
   \<and> fst (ask_model failing_service 0 ''sys'' ''hello''
           (snd (CoTEnvironment_init ''key'' ''glm-4'' 0.1 0.1 600 (process_start (0::nat)))))
       = ''Error: Request timed out.''"
proof -
  let ?st = "snd (CoTEnvironment_init ''key'' ''glm-4'' 0.1 0.1 600 (process_start (0::nat)))"
  let ?c = "client (environments ?st 0)"
  let ?rq = "create_kwargs (environments ?st 0) ''sys'' ''hello''"
  have named: "fst (create naming_service ?c ?rq ?st)
      = Inr \<lparr>choices = [\<lparr>message = Some \<lparr>content = ''glm-4''\<rparr>\<rparr>]\<rparr>"
    by (simp add: create_def naming_service_def create_kwargs_def CoTEnvironment_init_def
          process_start_def Let_def)
  have failed: "fst (create failing_service ?c ?rq ?st)
      = Inl (PyException ''APITimeoutError'' ''Request timed out.'')"
    by (simp add: create_def failing_service_def)
  have content: "fst (ask_model naming_service 0 ''sys'' ''hello'' ?st) = ''glm-4''"
    using named
      ask_model_content_or_error [of naming_service ?st 0 "''sys''" "''hello''"]
    unfolding Let_def by simp
  have error: "fst (ask_model failing_service 0 ''sys'' ''hello'' ?st)
      = ''Error: Request timed out.''"
    using failed
      ask_model_content_or_error [of failing_service ?st 0 "''sys''" "''hello''"]
    unfolding Let_def by simp
  show ?thesis
    by (rule conjI [OF named conjI [OF content conjI [OF failed error]]])
qed

text \<open>
  The claim as first stated also says that the error string is returned only if an
  exception was raised. That fails: the service below answers, its one choice has a
  message, so neither the call nor the extraction raises and the \<^verbatim>\<open>try\<close> block yields its
  content; yet \<^verbatim>\<open>ask_model\<close> returns \<^verbatim>\<open>"Error: "\<close> followed by the text of a time-out, the
  very string it returns when the service out of reach raises that time-out.
\<close>

theorem ask_model_error_string_without_exception:
  "fst (create error_text_service (client (environments (process_start (0::nat)) 0))
          (create_kwargs (environments (process_start (0::nat)) 0) ''sys'' ''hello'')
          (process_start (0::nat)))
     = Inr \<lparr>choices = [\<lparr>message = Some \<lparr>content = ''Error: Request timed out.''\<rparr>\<rparr>]\<rparr>
   \<and> first_content
         \<lparr>choices = [\<lparr>message = Some \<lparr>content = ''Error: Request timed out.''\<rparr>\<rparr>]\<rparr>
       = Inr ''Error: Request timed out.''
   \<and> fst (ask_model_try error_text_service 0 ''sys'' ''hello'' (process_start (0::nat)))
       = Inr ''Error: Request timed out.''
   \<and> fst (ask_model error_text_service 0 ''sys'' ''hello'' (process_start (0::nat)))
       = ''Error: '' @ exn_str (PyException ''APITimeoutError'' ''Request timed out.'')
   \<and> fst (ask_model error_text_service 0 ''sys'' ''hello'' (process_start (0::nat)))
       = fst (ask_model failing_service 0 ''sys'' ''hello'' (process_start (0::nat)))"
  by (simp add: ask_model_def ask_model_try_def create_def Let_def first_content_def
        error_text_service_def failing_service_def)

text \<open>
  Claim C6. The request \<^verbatim>\<open>ask_model\<close> hands to the SDK carries exactly two messages, the
  system message with the instruction and then the user message with the caller's text,
  and has streaming off. Whatever was sent before (\<open>requests st\<close>) is left as it is and
  none of it enters the new request.
\<close>

theorem ask_model_two_messages:
  "\<exists>rq. requests (snd (ask_model svc self system_prompt user_prompt st)) =
          requests st @ [(client (environments st self), rq)]
      \<and> messages rq = [[(''role'', ''system''), (''content'', system_prompt)],
                       [(''role'', ''user''), (''content'', user_prompt)]]
      \<and> length (messages rq) = 2
      \<and> stream rq = False"
  by (simp add: ask_model_requests create_kwargs_def)

text \<open>
  Claim C10. The handler also covers the extraction of the reply. When the service
  returns a response and reading the content of its first choice raises \<open>e\<close>, \<^verbatim>\<open>ask_model\<close>
  returns \<^verbatim>\<open>"Error: "\<close> followed by \<^verbatim>\<open>str(e)\<close>. The extraction raises exactly when the list of
  choices is empty or the message of the first choice is \<^verbatim>\<open>None\<close>; for the empty list the
  result is \<^verbatim>\<open>"Error: list index out of range"\<close>.
\<close>

theorem ask_model_extraction_failure:
  assumes "fst (svc (client (environments st self))
                  (create_kwargs (environments st self) system_prompt user_prompt)
                  (external st)) = Inr response"
  shows "(\<forall>e. first_content response = Inl e \<longrightarrow>
            fst (ask_model svc self system_prompt user_prompt st) = ''Error: '' @ exn_str e)
       \<and> (choices response = [] \<longrightarrow>
            fst (ask_model svc self system_prompt user_prompt st)
              = ''Error: list index out of range'')
       \<and> (isl (first_content response) \<longleftrightarrow>
            (case choices response of [] \<Rightarrow> True | c # _ \<Rightarrow> message c = None))"
  using assms
  by (auto simp: ask_model_reply first_content_def IndexError_def AttributeError_def
        split: list.splits option.splits)

theorem ask_model_extraction_failure_witness:
  "fst (empty_service (client (environments (process_start 0) 0))
          (create_kwargs (environments (process_start 0) 0) ''sys'' ''hello'')
          (external (process_start 0))) = Inr \<lparr>choices = []\<rparr>
   \<and> first_content \<lparr>choices = []\<rparr> = Inl (IndexError ''list index out of range'')
   \<and> fst (ask_model empty_service 0 ''sys'' ''hello'' (process_start 0))
       = ''Error: list index out of range''"
proof -
  have h: "fst (empty_service (client (environments (process_start 0) 0))
          (create_kwargs (environments (process_start 0) 0) ''sys'' ''hello'')
          (external (process_start 0))) = Inr \<lparr>choices = []\<rparr>"
    by (simp add: empty_service_def)
  have "fst (ask_model empty_service 0 ''sys'' ''hello'' (process_start 0))
       = ''Error: list index out of range''"
    using ask_model_extraction_failure
      [of empty_service "process_start 0" 0 "''sys''" "''hello''" "\<lparr>choices = []\<rparr>", OF h]
    by simp
  then show ?thesis
    using h by (simp add: first_content_def)
qed

subsection \<open>The orchestration\<close>

text \<open>
  Claim C2. For every input and every behaviour of the service, \<^verbatim>\<open>cot_process\<close> returns a
  triple of strings, and all three steps have run: three requests were handed to the SDK,
  whether a step succeeded or gave an error string. Each component is the result of that
  step's \<^verbatim>\<open>ask_model\<close> call, hence the content of a reply or an error string.
\<close>

theorem cot_process_three_strings:
  "\<exists>steps reasoning verification st'.
      cot_process (ask_model svc) k m p t n question st
        = ((steps, reasoning, verification), st')
    \<and> length (sent_between st st') = 3
    \<and> requests st' = requests st @ sent_between st st'"
proof -
  obtain steps reasoning verification st'
    where run: "cot_process (ask_model svc) k m p t n question st
                  = ((steps, reasoning, verification), st')"
    by (metis surj_pair)
  have sent: "length (sent_between st (snd (cot_process (ask_model svc) k m p t n question st))) = 3"
    by (simp add: cot_process_sent Let_def)
  have "requests (snd (cot_process (ask_model svc) k m p t n question st))
          = requests st
            @ sent_between st (snd (cot_process (ask_model svc) k m p t n question st))"
    by (simp add: sent_between_def cot_process_ask_model Let_def ask_model_requests
          ask_model_store)
  with run sent show ?thesis by simp
qed

text \<open>
  Claim C3. With the gateway replaced by a test double that returns \<^verbatim>\<open>"A"\<close>, \<^verbatim>\<open>"B"\<close>, \<^verbatim>\<open>"C"\<close>
  on its first three calls, the orchestration returns \<^verbatim>\<open>("A", "B", "C")\<close> for any question
  \<open>q\<close> and any parameters, and the calls the double received are chained: the user text of
  the first is \<open>q\<close>, of the second \<^verbatim>\<open>"A"\<close>, of the third \<^verbatim>\<open>"B"\<close>, each under the instruction
  of its role.
\<close>

theorem cot_process_mocked_gateway:
  assumes "external st = []"
    and "replies 0 = ''A''" and "replies 1 = ''B''" and "replies 2 = ''C''"
  shows "fst (cot_process (mock_gateway replies) k m p t n q st) = (''A'', ''B'', ''C'')
       \<and> external (snd (cot_process (mock_gateway replies) k m p t n q st))
           = [(analyzer_message, q), (reasoner_message, ''A''), (verifier_message, ''B'')]"
  using assms
  by (simp add: cot_process_def think_def constructors mock_gateway_def Let_def
        numeral_2_eq_2)

theorem cot_process_mocked_gateway_witness:
  "external (process_start ([] :: (string \<times> string) list)) = []
   \<and> fst (cot_process (mock_gateway (\<lambda>i. if i = 0 then ''A'' else if i = 1 then ''B'' else ''C''))
           ''key'' ''glm-4-plus'' 0.1 0.1 600 ''q'' (process_start []))
       = (''A'', ''B'', ''C'')
   \<and> external (snd (cot_process
           (mock_gateway (\<lambda>i. if i = 0 then ''A'' else if i = 1 then ''B'' else ''C''))
           ''key'' ''glm-4-plus'' 0.1 0.1 600 ''q'' (process_start [])))
       = [(analyzer_message, ''q''), (reasoner_message, ''A''), (verifier_message, ''B'')]"
proof -
  have h: "external (process_start ([] :: (string \<times> string) list)) = []"
    by (simp add: process_start_def)
  show ?thesis
    using h cot_process_mocked_gateway
      [of "process_start []" "\<lambda>i. if i = 0 then ''A'' else if i = 1 then ''B'' else ''C''"
          "''key''" "''glm-4-plus''" "0.1" "0.1" 600 "''q''", OF h]
    by simp
qed

text \<open>
  Claim C4. When the first service call raises \<open>e\<close>, the orchestration goes on: the first
  component of the result is \<^verbatim>\<open>"Error: "\<close> followed by \<^verbatim>\<open>str(e)\<close>, three requests are sent, the
  user text of the second is that error string, verbatim, and the user text of the third
  is the second step's result, whatever it is.
\<close>

theorem cot_process_first_call_fails:
  assumes "fst (svc \<lparr>api_key = k\<rparr>
                  (create_kwargs
                     \<lparr>client = \<lparr>api_key = k\<rparr>, CoTEnvironment.model = m,
                      CoTEnvironment.top_p = p, CoTEnvironment.temperature = t,
                      CoTEnvironment.max_tokens = n\<rparr>
                     analyzer_message q)
                  (external st)) = Inl e"
  shows "case cot_process (ask_model svc) k m p t n q st of
           ((steps, reasoning, verification), st') \<Rightarrow>
               steps = ''Error: '' @ exn_str e
             \<and> map (\<lambda>(c, rq). messages rq) (sent_between st st') =
                 [[[(''role'', ''system''), (''content'', analyzer_message)],
                   [(''role'', ''user''), (''content'', q)]],
                  [[(''role'', ''system''), (''content'', reasoner_message)],
                   [(''role'', ''user''), (''content'', ''Error: '' @ exn_str e)]],
                  [[(''role'', ''system''), (''content'', verifier_message)],
                   [(''role'', ''user''), (''content'', reasoning)]]]"
proof -
  let ?run = "cot_process (ask_model svc) k m p t n q st"
  have first: "fst (fst ?run) = ''Error: '' @ exn_str e"
    using assms by (simp add: cot_process_ask_model Let_def ask_model_reply)
  have "map (\<lambda>(c, rq). messages rq) (sent_between st (snd ?run)) =
          [[[(''role'', ''system''), (''content'', analyzer_message)],
            [(''role'', ''user''), (''content'', q)]],
           [[(''role'', ''system''), (''content'', reasoner_message)],
            [(''role'', ''user''), (''content'', fst (fst ?run))]],
           [[(''role'', ''system''), (''content'', verifier_message)],
            [(''role'', ''user''), (''content'', fst (snd (fst ?run)))]]]"
    by (simp add: cot_process_sent Let_def create_kwargs_def)
  with first show ?thesis
    by (simp add: case_prod_beta)
qed

theorem cot_process_first_call_fails_witness:
  "fst (failing_service \<lparr>api_key = ''key''\<rparr>
          (create_kwargs
             \<lparr>client = \<lparr>api_key = ''key''\<rparr>, CoTEnvironment.model = ''glm-4'',
              CoTEnvironment.top_p = 0.1, CoTEnvironment.temperature = 0.1,
              CoTEnvironment.max_tokens = 600\<rparr>
             analyzer_message ''q'')
          (external (process_start 0)))
     = Inl (PyException ''APITimeoutError'' ''Request timed out.'')
   \<and> (case cot_process (ask_model failing_service) ''key'' ''glm-4'' 0.1 0.1 600 ''q''
              (process_start 0) of
        ((steps, reasoning, verification), st') \<Rightarrow>
            steps = ''Error: Request timed out.''
          \<and> map (\<lambda>(c, rq). messages rq) (sent_between (process_start 0) st') =
              [[[(''role'', ''system''), (''content'', analyzer_message)],
                [(''role'', ''user''), (''content'', ''q'')]],
               [[(''role'', ''system''), (''content'', reasoner_message)],
                [(''role'', ''user''), (''content'', ''Error: Request timed out.'')]],
               [[(''role'', ''system''), (''content'', verifier_message)],
                [(''role'', ''user''), (''content'', reasoning)]]])"
proof -
  have h: "fst (failing_service \<lparr>api_key = ''key''\<rparr>
          (create_kwargs
             \<lparr>client = \<lparr>api_key = ''key''\<rparr>, CoTEnvironment.model = ''glm-4'',
              CoTEnvironment.top_p = 0.1, CoTEnvironment.temperature = 0.1,
              CoTEnvironment.max_tokens = 600\<rparr>
             analyzer_message ''q'')
          (external (process_start 0)))
     = Inl (PyException ''APITimeoutError'' ''Request timed out.'')"
    by (simp add: failing_service_def)
  show ?thesis
    using h cot_process_first_call_fails
      [of failing_service "''key''" "''glm-4''" "0.1" "0.1" 600 "''q''" "process_start 0"
          "PyException ''APITimeoutError'' ''Request timed out.''", OF h]
    by simp
qed

text \<open>
  Claim C5. In every invocation of \<^verbatim>\<open>cot_process\<close>, each of the three requests carries the
  \<^verbatim>\<open>top_p\<close>, \<^verbatim>\<open>temperature\<close> and \<^verbatim>\<open>max_tokens\<close> that were submitted, unchanged.
\<close>

theorem cot_process_forwards_parameters:
  "map (\<lambda>(c, rq). (request.top_p rq, request.temperature rq, request.max_tokens rq))
       (sent_between st (snd (cot_process (ask_model svc) k m p t n q st))) =
     [(p, t, n), (p, t, n), (p, t, n)]"
  by (simp add: cot_process_sent Let_def create_kwargs_def)

subsection \<open>Roles, independence and the frame of \<^verbatim>\<open>ask_model\<close>\<close>

lemma think_ask_model_agents:
  "agents (snd (think (ask_model svc) self user_prompt st)) = agents st"
  by (simp add: think_def Let_def ask_model_store)

lemma cot_process_agents:
  "agents (snd (cot_process (ask_model svc) k m p t n q st)) =
     (agents st)
       (agent_count st :=
          \<lparr>name = ''Problem Analyzer'', system_message = analyzer_message,
           environment = environment_count st\<rparr>,
        Suc (agent_count st) :=
          \<lparr>name = ''Step-by-Step Reasoner'', system_message = reasoner_message,
           environment = environment_count st\<rparr>,
        Suc (Suc (agent_count st)) :=
          \<lparr>name = ''Logical Verifier'', system_message = verifier_message,
           environment = environment_count st\<rparr>)"
  by (simp add: cot_process_ask_model Let_def ask_model_store)

text \<open>
  Claim C7. The name and the instruction of the three roles are constants. In every
  invocation of \<^verbatim>\<open>cot_process\<close>, whatever the inputs and the service, the system messages of
  the three requests are the instructions of the analyzer, the reasoner and the verifier,
  and the three agents of the invocation have these names and instructions when it
  returns. No operation changes an agent: \<^verbatim>\<open>think\<close> leaves the store of agents as it is, and
  \<^verbatim>\<open>cot_process\<close> leaves every agent that existed before as it was.
\<close>

theorem roles_are_constants:
  "map (\<lambda>(c, rq). take 1 (messages rq))
       (sent_between st (snd (cot_process (ask_model svc) k m p t n q st))) =
     [[[(''role'', ''system''), (''content'', analyzer_message)]],
      [[(''role'', ''system''), (''content'', reasoner_message)]],
      [[(''role'', ''system''), (''content'', verifier_message)]]]
   \<and> map (\<lambda>r. (name (agents (snd (cot_process (ask_model svc) k m p t n q st)) r),
                system_message (agents (snd (cot_process (ask_model svc) k m p t n q st)) r)))
         [agent_count st, Suc (agent_count st), Suc (Suc (agent_count st))] =
       [(''Problem Analyzer'', analyzer_message),
        (''Step-by-Step Reasoner'', reasoner_message),
        (''Logical Verifier'', verifier_message)]
   \<and> agents (snd (think (ask_model svc) self user_prompt st)) = agents st
   \<and> (\<forall>r. r < agent_count st \<longrightarrow>
          agents (snd (cot_process (ask_model svc) k m p t n q st)) r = agents st r)"
proof -
  have "map (\<lambda>(c, rq). take 1 (messages rq))
       (sent_between st (snd (cot_process (ask_model svc) k m p t n q st))) =
     [[[(''role'', ''system''), (''content'', analyzer_message)]],
      [[(''role'', ''system''), (''content'', reasoner_message)]],
      [[(''role'', ''system''), (''content'', verifier_message)]]]"
    by (simp add: cot_process_sent Let_def create_kwargs_def)
  moreover have "map (\<lambda>r. (name (agents (snd (cot_process (ask_model svc) k m p t n q st)) r),
                system_message (agents (snd (cot_process (ask_model svc) k m p t n q st)) r)))
         [agent_count st, Suc (agent_count st), Suc (Suc (agent_count st))] =
       [(''Problem Analyzer'', analyzer_message),
        (''Step-by-Step Reasoner'', reasoner_message),
        (''Logical Verifier'', verifier_message)]"
    by (simp add: cot_process_agents)
  moreover have "\<forall>r. r < agent_count st \<longrightarrow>
          agents (snd (cot_process (ask_model svc) k m p t n q st)) r = agents st r"
    by (simp add: cot_process_agents)
  ultimately show ?thesis
    by (simp only: think_ask_model_agents simp_thms)
qed

text \<open>
  An agent of a first invocation is as it was after a second invocation with another
  question and other parameters.
\<close>

theorem roles_are_constants_witness:
  "0 < agent_count (snd (cot_process (ask_model naming_service)
         ''key'' ''glm-4'' 0.1 0.1 600 ''q'' (process_start 0)))
   \<and> agents (snd (cot_process (ask_model naming_service) ''other'' ''glm-4-air'' 0.5 0.9 100 ''r''
         (snd (cot_process (ask_model naming_service)
            ''key'' ''glm-4'' 0.1 0.1 600 ''q'' (process_start 0))))) 0
     = \<lparr>name = ''Problem Analyzer'', system_message = analyzer_message, environment = 0\<rparr>"
proof -
  let ?st = "snd (cot_process (ask_model naming_service)
         ''key'' ''glm-4'' 0.1 0.1 600 ''q'' (process_start 0))"
  have count: "agent_count ?st = 3"
    by (simp add: cot_process_ask_model Let_def ask_model_store process_start_def)
  have first: "agents ?st 0
      = \<lparr>name = ''Problem Analyzer'', system_message = analyzer_message, environment = 0\<rparr>"
    by (simp add: cot_process_agents process_start_def)
  have "agents (snd (cot_process (ask_model naming_service) ''other'' ''glm-4-air'' 0.5 0.9 100
          ''r'' ?st)) 0 = agents ?st 0"
    using roles_are_constants
      [of ?st naming_service "''other''" "''glm-4-air''" "0.5" "0.9" 100 "''r''" 0 "''x''"]
      count
    by simp
  with count first show ?thesis by simp
qed

text \<open>
  Claim C8. Invocations are independent. Each invocation allocates one new environment,
  built from the submitted values, and three new agents. If the response of the service
  is a function of the client and the request alone, the triple an invocation returns
  does not depend on the state it starts in: not on the store, not on the requests sent
  before, not on the state of the service. So two runs with the same arguments return the
  same triple, whatever ran before either of them.
\<close>

theorem cot_process_independent:
  assumes "\<forall>c rq w w'. fst (svc c rq w) = fst (svc c rq w')"
  shows "fst (cot_process (ask_model svc) k m p t n q st)
           = fst (cot_process (ask_model svc) k m p t n q st')
       \<and> environment_count (snd (cot_process (ask_model svc) k m p t n q st))
           = Suc (environment_count st)
       \<and> environments (snd (cot_process (ask_model svc) k m p t n q st)) (environment_count st)
           = \<lparr>client = \<lparr>api_key = k\<rparr>, CoTEnvironment.model = m,
              CoTEnvironment.top_p = p, CoTEnvironment.temperature = t,
              CoTEnvironment.max_tokens = n\<rparr>
       \<and> agent_count (snd (cot_process (ask_model svc) k m p t n q st))
           = Suc (Suc (Suc (agent_count st)))"
proof -
  define f where "f c rq = fst (svc c rq (external st))" for c rq
  have det: "fst (svc c rq w) = f c rq" for c rq w
    using assms unfolding f_def by blast
  have reply: "fst (ask_model svc self sp up s) =
      (case f (client (environments s self)) (create_kwargs (environments s self) sp up) of
         Inl e \<Rightarrow> ''Error: '' @ exn_str e
       | Inr response \<Rightarrow>
           (case first_content response of
              Inl e \<Rightarrow> ''Error: '' @ exn_str e
            | Inr text \<Rightarrow> text))" for self sp up s
    by (simp add: ask_model_reply det)
  have same: "fst (cot_process (ask_model svc) k m p t n q st)
          = fst (cot_process (ask_model svc) k m p t n q st')"
    by (simp add: cot_process_ask_model Let_def reply ask_model_store)
  have fresh: "environment_count (snd (cot_process (ask_model svc) k m p t n q st))
           = Suc (environment_count st)
       \<and> environments (snd (cot_process (ask_model svc) k m p t n q st)) (environment_count st)
           = \<lparr>client = \<lparr>api_key = k\<rparr>, CoTEnvironment.model = m,
              CoTEnvironment.top_p = p, CoTEnvironment.temperature = t,
              CoTEnvironment.max_tokens = n\<rparr>
       \<and> agent_count (snd (cot_process (ask_model svc) k m p t n q st))
           = Suc (Suc (Suc (agent_count st)))"
    by (simp add: cot_process_ask_model Let_def ask_model_store)
  from same fresh show ?thesis
    by (rule conjI)
qed

text \<open>
  The naming service counts its requests, but its response depends on the request alone.
  A run after another run, with another key and question, returns what a run from the
  start returns.
\<close>

theorem cot_process_independent_witness:
  "(\<forall>c rq w w'. fst (naming_service c rq w) = fst (naming_service c rq w'))
   \<and> fst (cot_process (ask_model naming_service) ''key'' ''glm-4'' 0.1 0.1 600 ''q''
           (snd (cot_process (ask_model naming_service) ''other'' ''glm-4-air'' 0.5 0.9 100 ''r''
              (process_start 0))))
       = (''glm-4'', ''glm-4'', ''glm-4'')
   \<and> fst (cot_process (ask_model naming_service) ''key'' ''glm-4'' 0.1 0.1 600 ''q''
           (process_start 0))
       = (''glm-4'', ''glm-4'', ''glm-4'')"
proof -
  have h: "\<forall>c rq w w'. fst (naming_service c rq w) = fst (naming_service c rq w')"
    by (simp add: naming_service_def)
  have start: "fst (cot_process (ask_model naming_service) ''key'' ''glm-4'' 0.1 0.1 600 ''q''
           (process_start 0)) = (''glm-4'', ''glm-4'', ''glm-4'')"
    by (simp add: cot_process_ask_model Let_def ask_model_reply ask_model_store
          naming_service_def first_content_def create_kwargs_def)
  show ?thesis
    using h start cot_process_independent
      [OF h, of "''key''" "''glm-4''" "0.1" "0.1" 600 "''q''"
          "snd (cot_process (ask_model naming_service) ''other'' ''glm-4-air'' 0.5 0.9 100 ''r''
              (process_start 0))"
          "process_start 0"]
    by simp
qed

lemma ask_models_environments:
  "environments (snd (ask_models svc self calls st)) = environments st"
proof (induction calls arbitrary: st)
  case Nil
  show ?case by simp
next
  case (Cons call calls)
  obtain sp up where "call = (sp, up)"
    by (cases call)
  with Cons show ?case
    by (simp add: case_prod_beta ask_model_store)
qed

lemma ask_models_requests:
  "requests (snd (ask_models svc self calls st)) =
     requests st @
     map (\<lambda>(sp, up). (client (environments st self),
                       create_kwargs (environments st self) sp up)) calls"
proof (induction calls arbitrary: st)
  case Nil
  show ?case by simp
next
  case (Cons call calls)
  obtain sp up where "call = (sp, up)"
    by (cases call)
  with Cons show ?case
    by (simp add: case_prod_beta ask_model_store ask_model_requests)
qed

text \<open>
  Claim C9. \<^verbatim>\<open>ask_model\<close> assigns to no field of the gateway. After any sequence of
  \<^verbatim>\<open>ask_model\<close> calls on one \<^verbatim>\<open>CoTEnvironment\<close> the store of environments is as it was, so the
  environment still has the client, model, \<^verbatim>\<open>top_p\<close>, \<^verbatim>\<open>temperature\<close> and \<^verbatim>\<open>max_tokens\<close> its
  constructor set; every request of the sequence was sent with these values; and the
  three requests of one invocation of \<^verbatim>\<open>cot_process\<close> carry the same client and parameters.
\<close>

theorem ask_model_leaves_configuration:
  "environments (snd (ask_models svc self calls st)) = environments st
   \<and> (case CoTEnvironment_init k m p t n st of
        (self', st1) \<Rightarrow>
          environments (snd (ask_models svc self' calls st1)) self'
            = \<lparr>client = \<lparr>api_key = k\<rparr>, CoTEnvironment.model = m,
               CoTEnvironment.top_p = p, CoTEnvironment.temperature = t,
               CoTEnvironment.max_tokens = n\<rparr>)
   \<and> map (\<lambda>(c, rq). (c, request.model rq, request.top_p rq, request.temperature rq,
                      request.max_tokens rq))
         (sent_between st (snd (ask_models svc self calls st)))
       = replicate (length calls)
           (client (environments st self),
            CoTEnvironment.model (environments st self),
            CoTEnvironment.top_p (environments st self),
            CoTEnvironment.temperature (environments st self),
            CoTEnvironment.max_tokens (environments st self))
   \<and> map (\<lambda>(c, rq). (c, request.model rq, request.top_p rq, request.temperature rq,
                      request.max_tokens rq))
         (sent_between st (snd (cot_process (ask_model svc) k m p t n q st)))
       = replicate 3 (\<lparr>api_key = k\<rparr>, m, p, t, n)"
proof -
  have "map (\<lambda>(c, rq). (c, request.model rq, request.top_p rq, request.temperature rq,
                      request.max_tokens rq))
         (sent_between st (snd (ask_models svc self calls st)))
       = replicate (length calls)
           (client (environments st self),
            CoTEnvironment.model (environments st self),
            CoTEnvironment.top_p (environments st self),
            CoTEnvironment.temperature (environments st self),
            CoTEnvironment.max_tokens (environments st self))"
    by (simp add: sent_between_def ask_models_requests create_kwargs_def case_prod_beta
          comp_def map_replicate_const)
  moreover have "map (\<lambda>(c, rq). (c, request.model rq, request.top_p rq, request.temperature rq,
                      request.max_tokens rq))
         (sent_between st (snd (cot_process (ask_model svc) k m p t n q st)))
       = replicate 3 (\<lparr>api_key = k\<rparr>, m, p, t, n)"
    by (simp add: cot_process_sent Let_def create_kwargs_def numeral_3_eq_3)
  ultimately show ?thesis
    by (simp add: ask_models_environments CoTEnvironment_init_def Let_def)
qed


end
